theory Spec2Isabelle
  imports Main "HOL-Library.Word" "HOL-Library.Char_ord" "HOL-Library.List_Lexorder"
    "HOL-Library.Multiset"
begin

section \<open>The F5 VirtualServer source of external-dns\<close>

text \<open>
  A shallow embedding of \<^verbatim>\<open>source/f5_virtualserver.go\<close>. Go strings are byte
  sequences and are modelled as \<^typ>\<open>string\<close>; a Go \<^verbatim>\<open>map[string]string\<close> is a
  partial function; a slice is a list (a nil slice and an empty slice are both \<open>[]\<close>,
  the source only ever asks for \<^verbatim>\<open>len\<close>); a Go \<^verbatim>\<open>(value, error)\<close> result is
  a sum with the error on the left. Pointers to freshly built objects are modelled by
  the objects themselves.
\<close>

subsection \<open>Errors and log output\<close>

text \<open>
  \<^verbatim>\<open>errors.New(msg)\<close> and \<^verbatim>\<open>fmt.Errorf(prefix + "%w", err)\<close>. Errors that
  come out of a collaborator are values of the same type.
\<close>

datatype error = New string | Errorf string error

fun Error :: "error \<Rightarrow> string" where
  "Error (New msg) = msg"
| "Error (Errorf prefix err) = prefix @ Error err"

datatype level = Warn | Debug

type_synonym log = "(level \<times> string) list"

definition Warnf :: "string \<Rightarrow> log \<Rightarrow> log" where
  "Warnf msg lg = lg @ [(Warn, msg)]"

subsection \<open>Data model\<close>

type_synonym annotations = "string \<rightharpoonup> string"

text \<open>
  The fields of \<^verbatim>\<open>f5.VirtualServer\<close> that the source reads: the object metadata
  (namespace, name, annotations), \<^verbatim>\<open>Spec.Host\<close>, \<^verbatim>\<open>Spec.VirtualServerAddress\<close>
  and \<^verbatim>\<open>Status.VSAddress\<close>.
\<close>

record VirtualServerSpec =
  Host :: string
  VirtualServerAddress :: string

record VirtualServerStatus =
  VSAddress :: string

record VirtualServer =
  Namespace :: string
  Name :: string
  Annotations :: annotations
  Spec :: VirtualServerSpec
  Status :: VirtualServerStatus

type_synonym TTL = "64 word"

type_synonym Targets = "string list"

text \<open>
  Modelled from the spec: the type \<^verbatim>\<open>endpoint.Endpoint\<close> is declared in package
  \<^verbatim>\<open>endpoint\<close>, which is not part of the sources at hand. The record has the fields
  that section 3 of the specification gives an EndpointRecord: the DNS name, the ordered
  target list, the TTL (\<open>0\<close> is "not configured") and the label set, which carries the
  provenance tag under the key \<open>resource\<close>. The record kind is assigned inside
  \<^verbatim>\<open>EndpointsForHostname\<close> and is not represented.
\<close>

record Endpoint =
  DNSName :: string
  Targets :: Targets
  RecordTTL :: TTL
  Labels :: "string \<rightharpoonup> string"

text \<open>
  An item of the informer cache is a \<^verbatim>\<open>runtime.Object\<close>: either an
  \<^verbatim>\<open>*unstructured.Unstructured\<close> (with payload \<open>'u\<close>) or a value of some other
  dynamic type, on which the type assertion in \<^verbatim>\<open>Endpoints\<close> fails.
\<close>

datatype 'u runtime_object = Unstructured 'u | OtherObject

text \<open>
  The functions of the repository and of its libraries that the source calls and that are
  defined elsewhere are parameters of the model:
  \<^item> \<^verbatim>\<open>annotations.ParseFilter\<close>, with \<^verbatim>\<open>Empty\<close> and \<^verbatim>\<open>Matches\<close> of the
    \<^verbatim>\<open>labels.Selector\<close> it returns (\<open>'s\<close> is the selector type);
  \<^item> \<^verbatim>\<open>annotations.TTLFromAnnotations\<close> and
    \<^verbatim>\<open>annotations.TargetsFromTargetAnnotation\<close>;
  \<^item> \<^verbatim>\<open>EndpointsForHostname\<close>, applied to hostname, targets, TTL and resource (the
    provider-specific argument is always \<^verbatim>\<open>nil\<close> and the set identifier always
    \<^verbatim>\<open>""\<close> in this source).
\<close>

record 's collaborators =
  ParseFilter :: "string \<Rightarrow> error + 's"
  Empty :: "'s \<Rightarrow> bool"
  Matches :: "'s \<Rightarrow> annotations \<Rightarrow> bool"
  TTLFromAnnotations :: "annotations \<Rightarrow> string \<Rightarrow> TTL"
  TargetsFromTargetAnnotation :: "annotations \<Rightarrow> Targets"
  EndpointsForHostname :: "string \<Rightarrow> Targets \<Rightarrow> TTL \<Rightarrow> string \<Rightarrow> Endpoint list"

text \<open>
  \<^verbatim>\<open>f5VirtualServerSource\<close>. The informer is represented by what one call of its
  lister returns for a namespace
  (\<^verbatim>\<open>Lister().ByNamespace(ns).List(labels.Everything())\<close>), the converter by its
  \<^verbatim>\<open>scheme.Convert\<close>. The lister fixes no order on the objects it returns: two
  listings that hold the same objects in another order are two enumerations of the same
  cache contents. The two Kubernetes clients are stored and never used by the methods
  below.
\<close>

record 'u f5VirtualServerSource =
  virtualServerInformer :: "string \<Rightarrow> error + 'u runtime_object list"
  annotationFilter :: string
  namespace :: string
  unstructuredConverter :: "'u \<Rightarrow> error + VirtualServer"

subsection \<open>The validity gate\<close>

text \<open>
  \<^verbatim>\<open>strings.ToLower\<close> on the bytes of a string: the letters \<open>A\<close> to \<open>Z\<close> are
  mapped to \<open>a\<close> to \<open>z\<close>, every other byte is kept. Go also maps upper-case letters
  outside ASCII; none of them is mapped to an ASCII \<open>n\<close>, \<open>o\<close> or \<open>e\<close>, and no rune is
  dropped, so the two comparisons of \<^verbatim>\<open>hasValidVirtualServerIP\<close> come out the same.
\<close>

definition toLower_byte :: "char \<Rightarrow> char" where
  "toLower_byte c =
     (if CHR ''A'' \<le> c \<and> c \<le> CHR ''Z'' then char_of (of_char c + (32::nat)) else c)"

definition ToLower :: "string \<Rightarrow> string" where
  "ToLower s = map toLower_byte s"

definition hasValidVirtualServerIP :: "VirtualServer \<Rightarrow> bool" where
  "hasValidVirtualServerIP vs =
     (let normalizedAddress = ToLower (VSAddress (Status vs))
      in normalizedAddress \<noteq> ''none'' \<and> normalizedAddress \<noteq> '''')"

subsection \<open>Endpoint synthesis\<close>

text \<open>\<^verbatim>\<open>fmt.Sprintf("f5-virtualserver/%s/%s", Namespace, Name)\<close>.\<close>

definition resource_of :: "VirtualServer \<Rightarrow> string" where
  "resource_of virtualServer =
     ''f5-virtualserver/'' @ Namespace virtualServer @ ''/'' @ Name virtualServer"

text \<open>
  The target resolution in the body of the loop of
  \<^verbatim>\<open>endpointsFromVirtualServers\<close>: the targets of the annotation, then the two
  guarded \<^verbatim>\<open>append\<close>s.
\<close>

definition resolve_targets :: "'s collaborators \<Rightarrow> VirtualServer \<Rightarrow> Targets" where
  "resolve_targets c virtualServer =
     (let targets = TargetsFromTargetAnnotation c (Annotations virtualServer);
          targets = (if length targets = 0 \<and> VirtualServerAddress (Spec virtualServer) \<noteq> ''''
                     then targets @ [VirtualServerAddress (Spec virtualServer)] else targets);
          targets = (if length targets = 0 \<and> VSAddress (Status virtualServer) \<noteq> ''''
                     then targets @ [VSAddress (Status virtualServer)] else targets)
      in targets)"

definition skip_message :: "VirtualServer \<Rightarrow> string" where
  "skip_message virtualServer =
     ''F5 VirtualServer '' @ Namespace virtualServer @ ''/'' @ Name virtualServer
       @ '' is missing a valid IP address, skipping endpoint creation.''"

text \<open>
  The loop of \<^verbatim>\<open>endpointsFromVirtualServers\<close>, with the slice \<^verbatim>\<open>endpoints\<close> and
  the log as accumulators.
\<close>

fun endpoints_loop ::
  "'s collaborators \<Rightarrow> VirtualServer list \<Rightarrow> Endpoint list \<Rightarrow> log \<Rightarrow> Endpoint list \<times> log" where
  "endpoints_loop c [] endpoints lg = (endpoints, lg)"
| "endpoints_loop c (virtualServer # rest) endpoints lg =
     (if \<not> hasValidVirtualServerIP virtualServer
      then endpoints_loop c rest endpoints (Warnf (skip_message virtualServer) lg)
      else
        let resource = resource_of virtualServer;
            ttl = TTLFromAnnotations c (Annotations virtualServer) resource;
            targets = resolve_targets c virtualServer
        in endpoints_loop c rest
             (endpoints @ EndpointsForHostname c (Host (Spec virtualServer)) targets ttl resource)
             lg)"

definition endpointsFromVirtualServers ::
  "'s collaborators \<Rightarrow> VirtualServer list \<Rightarrow> log \<Rightarrow> (error + Endpoint list) \<times> log" where
  "endpointsFromVirtualServers c virtualServers lg =
     (case endpoints_loop c virtualServers [] lg of (endpoints, lg') \<Rightarrow> (Inr endpoints, lg'))"

subsection \<open>Filtering by annotations\<close>

definition filterByAnnotations ::
  "'s collaborators \<Rightarrow> 'u f5VirtualServerSource \<Rightarrow> VirtualServer list
     \<Rightarrow> error + VirtualServer list" where
  "filterByAnnotations c vs virtualServers =
     (case ParseFilter c (annotationFilter vs) of
        Inl err \<Rightarrow> Inl err
      | Inr selector \<Rightarrow>
          if Empty c selector then Inr virtualServers
          else Inr (filter (\<lambda>v. Matches c selector (Annotations v)) virtualServers))"

subsection \<open>Endpoints\<close>

text \<open>The conversion of one cached object: the type assertion, then \<^verbatim>\<open>scheme.Convert\<close>.\<close>

definition convert_object ::
  "'u f5VirtualServerSource \<Rightarrow> 'u runtime_object \<Rightarrow> error + VirtualServer" where
  "convert_object vs vsObj =
     (case vsObj of
        OtherObject \<Rightarrow> Inl (New ''could not convert'')
      | Unstructured unstructuredHost \<Rightarrow> unstructuredConverter vs unstructuredHost)"

text \<open>The first loop of \<^verbatim>\<open>Endpoints\<close>; it returns at the first object that fails.\<close>

fun convert_loop ::
  "'u f5VirtualServerSource \<Rightarrow> 'u runtime_object list \<Rightarrow> VirtualServer list
     \<Rightarrow> error + VirtualServer list" where
  "convert_loop vs [] virtualServers = Inr virtualServers"
| "convert_loop vs (vsObj # rest) virtualServers =
     (case convert_object vs vsObj of
        Inl err \<Rightarrow> Inl err
      | Inr virtualServer \<Rightarrow> convert_loop vs rest (virtualServers @ [virtualServer]))"

text \<open>
  Modelled from the spec: the comparison \<^verbatim>\<open>Less\<close> of \<^verbatim>\<open>endpoint.Targets\<close>, which
  \<^verbatim>\<open>sort.Sort(ep.Targets)\<close> uses, is declared in package \<^verbatim>\<open>endpoint\<close>, which is
  not part of the sources at hand. Section 4.4 of the specification names the order:
  lexicographic on the address string. On byte strings this is the order of
  \<^typ>\<open>string\<close>; for a linear order the sorted list is unique, so the library's
  \<^const>\<open>sort\<close> returns what any sorting algorithm returns.
\<close>

definition sort_Targets :: "Endpoint \<Rightarrow> Endpoint" where
  "sort_Targets ep = ep\<lparr>Targets := sort (Targets ep)\<rparr>"

definition Endpoints ::
  "'s collaborators \<Rightarrow> 'u f5VirtualServerSource \<Rightarrow> log \<Rightarrow> (error + Endpoint list) \<times> log" where
  "Endpoints c vs lg =
     (case virtualServerInformer vs (namespace vs) of
        Inl err \<Rightarrow> (Inl err, lg)
      | Inr virtualServerObjects \<Rightarrow>
          (case convert_loop vs virtualServerObjects [] of
             Inl err \<Rightarrow> (Inl err, lg)
           | Inr virtualServers \<Rightarrow>
               (case filterByAnnotations c vs virtualServers of
                  Inl err \<Rightarrow> (Inl (Errorf ''failed to filter VirtualServers: '' err), lg)
                | Inr virtualServers' \<Rightarrow>
                    (case endpointsFromVirtualServers c virtualServers' lg of
                       (Inl err, lg') \<Rightarrow> (Inl err, lg')
                     | (Inr endpoints, lg') \<Rightarrow> (Inr (map sort_Targets endpoints), lg')))))"

subsection \<open>Construction\<close>

text \<open>
  What \<^verbatim>\<open>NewF5VirtualServerSource\<close> obtains from its surroundings: the informer that
  the factory for a namespace hands out for the VirtualServer resource, the outcome of
  \<^verbatim>\<open>informers.WaitForDynamicCacheSync\<close> (\<open>None\<close> is a \<^verbatim>\<open>nil\<close> error), the
  outcome of \<^verbatim>\<open>scheme.AddToScheme\<close>, and the conversion of the scheme that
  \<^verbatim>\<open>runtime.NewScheme\<close> returns.
\<close>

record 'u environment =
  ForResource :: "string \<Rightarrow> string \<Rightarrow> error + 'u runtime_object list"
  WaitForDynamicCacheSync :: "error option"
  AddToScheme :: "error option"
  Convert :: "'u \<Rightarrow> error + VirtualServer"

definition newVSUnstructuredConverter ::
  "'u environment \<Rightarrow> error + ('u \<Rightarrow> error + VirtualServer)" where
  "newVSUnstructuredConverter env =
     (case AddToScheme env of
        Some err \<Rightarrow> Inl err
      | None \<Rightarrow> Inr (Convert env))"

definition NewF5VirtualServerSource ::
  "'u environment \<Rightarrow> string \<Rightarrow> string \<Rightarrow> error + 'u f5VirtualServerSource" where
  "NewF5VirtualServerSource env namespace' annotationFilter' =
     (let virtualServerInformer' = ForResource env namespace'
      in case WaitForDynamicCacheSync env of
           Some err \<Rightarrow> Inl err
         | None \<Rightarrow>
             (case newVSUnstructuredConverter env of
                Inl err \<Rightarrow> Inl (Errorf ''failed to setup unstructured converter: '' err)
              | Inr uc \<Rightarrow>
                  Inr \<lparr>virtualServerInformer = virtualServerInformer',
                       annotationFilter = annotationFilter',
                       namespace = namespace',
                       unstructuredConverter = uc\<rparr>))"

subsection \<open>Stand-ins for the collaborators\<close>

text \<open>
  The general theorems below hold for every choice of the collaborators. To run the
  source on the scenarios of the specification, the collaborators are instantiated with
  the following stand-ins.
\<close>

datatype selector = Everything | Equals string string

text \<open>
  Modelled from the spec: \<^verbatim>\<open>annotations.ParseFilter\<close> and the selector it returns are
  not part of the sources at hand. The stand-in covers the two forms of expression that
  the specification shows (section 4.3 and scenario 4): the empty expression, whose
  selector is empty and matches everything, and a single requirement \<open>key=value\<close>, which
  matches the maps that bind \<open>key\<close> to \<open>value\<close>. Every other expression is rejected, which
  is narrower than the parser of the repository.
\<close>

definition parse_filter :: "string \<Rightarrow> error + selector" where
  "parse_filter expression =
     (if expression = '''' then Inr Everything
      else
        let key = takeWhile (\<lambda>c. c \<noteq> CHR ''='') expression;
            rest = dropWhile (\<lambda>c. c \<noteq> CHR ''='') expression
        in if key = '''' \<or> rest = '''' \<or> CHR ''='' \<in> set (tl rest)
           then Inl (New (''unable to parse requirement: '' @ expression))
           else Inr (Equals key (tl rest)))"

fun selector_empty :: "selector \<Rightarrow> bool" where
  "selector_empty Everything = True"
| "selector_empty (Equals key val) = False"

fun selector_matches :: "selector \<Rightarrow> annotations \<Rightarrow> bool" where
  "selector_matches Everything a = True"
| "selector_matches (Equals key val) a = (a key = Some val)"

text \<open>
  Modelled from the spec: \<^verbatim>\<open>annotations.TargetsFromTargetAnnotation\<close> is not part of
  the sources at hand. Following scenario 3 of the specification, the stand-in reads the
  annotation \<open>target\<close> and splits its value at the commas; an absent or empty annotation
  yields no target.
\<close>

fun split_commas :: "string \<Rightarrow> string \<Rightarrow> string list" where
  "split_commas [] current = [current]"
| "split_commas (c # cs) current =
     (if c = CHR '','' then current # split_commas cs [] else split_commas cs (current @ [c]))"

definition targets_from_annotation :: "annotations \<Rightarrow> Targets" where
  "targets_from_annotation a =
     (case a ''target'' of
        None \<Rightarrow> []
      | Some v \<Rightarrow> if v = '''' then [] else split_commas v [])"

text \<open>
  Modelled from the spec: \<^verbatim>\<open>EndpointsForHostname\<close> is not part of the sources at hand.
  Following section 4.4, step 5, and section 3 of the specification, the stand-in builds
  one record for the hostname, with the resolved target list, the TTL and the provenance
  tag, and no record when there is no target.
\<close>

definition endpoints_for_hostname :: "string \<Rightarrow> Targets \<Rightarrow> TTL \<Rightarrow> string \<Rightarrow> Endpoint list" where
  "endpoints_for_hostname hostname targets ttl resource =
     (if targets = [] then []
      else [\<lparr>DNSName = hostname, Targets = targets, RecordTTL = ttl,
              Labels = [''resource'' \<mapsto> resource]\<rparr>])"

text \<open>
  Modelled from the spec: \<^verbatim>\<open>annotations.TTLFromAnnotations\<close> is not part of the
  sources at hand. None of the scenarios of the specification carries a TTL annotation;
  the stand-in leaves the TTL unset.
\<close>

definition spec_collaborators :: "selector collaborators" where
  "spec_collaborators =
     \<lparr>ParseFilter = parse_filter,
      Empty = selector_empty,
      Matches = selector_matches,
      TTLFromAnnotations = (\<lambda>a resource. 0),
      TargetsFromTargetAnnotation = targets_from_annotation,
      EndpointsForHostname = endpoints_for_hostname\<rparr>"

text \<open>
  The objects of the scenarios of the specification, and a cache whose objects are
  already typed (conversion is the identity on them).
\<close>

definition scenario_vs :: "string \<Rightarrow> string \<Rightarrow> annotations \<Rightarrow> VirtualServer" where
  "scenario_vs specAddress statusAddress a =
     \<lparr>Namespace = ''default'', Name = ''vs1'', Annotations = a,
      Spec = \<lparr>Host = ''a.example.com'', VirtualServerAddress = specAddress\<rparr>,
      Status = \<lparr>VSAddress = statusAddress\<rparr>\<rparr>"

definition scenario_convert :: "VirtualServer option \<Rightarrow> error + VirtualServer" where
  "scenario_convert u =
     (case u of
        None \<Rightarrow> Inl (New ''converting (unstructured) to (v1.VirtualServer)'')
      | Some v \<Rightarrow> Inr v)"

definition scenario_source ::
  "string \<Rightarrow> VirtualServer option runtime_object list
     \<Rightarrow> VirtualServer option f5VirtualServerSource" where
  "scenario_source expression objects =
     \<lparr>virtualServerInformer = (\<lambda>ns. Inr objects),
      annotationFilter = expression,
      namespace = ''default'',
      unstructuredConverter = scenario_convert\<rparr>"

definition scenario_environment :: "VirtualServer option environment" where
  "scenario_environment =
     \<lparr>ForResource = (\<lambda>factoryNamespace ns. Inr []),
      WaitForDynamicCacheSync = None,
      AddToScheme = None,
      Convert = scenario_convert\<rparr>"

section \<open>Properties\<close>

subsection \<open>The synthesis loop\<close>

text \<open>
  The records that the loop returns are the records it was started with, followed by
  the records of the objects; the log does not influence them.
\<close>

lemma endpoints_loop_fst:
  "fst (endpoints_loop c vss eps lg) = eps @ fst (endpoints_loop c vss [] lg0)"
proof (induction vss arbitrary: eps lg lg0)
  case Nil
  show ?case by simp
next
  case (Cons v rest)
  show ?case
  proof (cases "hasValidVirtualServerIP v")
    case False
    then show ?thesis using Cons.IH [of eps _ "Warnf (skip_message v) lg0"] by simp
  next
    case True
    let ?E = "EndpointsForHostname c (Host (Spec v)) (resolve_targets c v)
                (TTLFromAnnotations c (Annotations v) (resource_of v)) (resource_of v)"
    have "fst (endpoints_loop c (v # rest) eps lg)
            = (eps @ ?E) @ fst (endpoints_loop c rest [] lg0)"
      using True Cons.IH [of "eps @ ?E" lg lg0] by (simp add: Let_def)
    moreover have "fst (endpoints_loop c (v # rest) [] lg0)
            = ?E @ fst (endpoints_loop c rest [] lg0)"
      using True Cons.IH [of "?E" lg0 lg0] by (simp add: Let_def)
    ultimately show ?thesis by simp
  qed
qed

lemma endpoints_loop_append:
  "endpoints_loop c (xs @ ys) eps lg =
     (case endpoints_loop c xs eps lg of (eps', lg') \<Rightarrow> endpoints_loop c ys eps' lg')"
  by (induction xs arbitrary: eps lg) (simp_all add: Let_def)

lemma fst_endpointsFromVirtualServers:
  "fst (endpointsFromVirtualServers c vss lg) = Inr (fst (endpoints_loop c vss [] lg))"
  by (simp add: endpointsFromVirtualServers_def split: prod.splits)

lemma endpointsFromVirtualServers_valid:
  "hasValidVirtualServerIP v \<Longrightarrow>
     endpointsFromVirtualServers c [v] lg =
       (Inr (EndpointsForHostname c (Host (Spec v)) (resolve_targets c v)
               (TTLFromAnnotations c (Annotations v) (resource_of v)) (resource_of v)), lg)"
  by (simp add: endpointsFromVirtualServers_def Let_def)


lemma gate_status_nonempty: "hasValidVirtualServerIP v \<Longrightarrow> VSAddress (Status v) \<noteq> ''''"
  by (auto simp add: hasValidVirtualServerIP_def Let_def ToLower_def)

lemma endpoints_loop_fst_append:
  "fst (endpoints_loop c (xs @ ys) [] lg)
     = fst (endpoints_loop c xs [] lg) @ fst (endpoints_loop c ys [] lg)"
proof -
  obtain eps lg1 where xs: "endpoints_loop c xs [] lg = (eps, lg1)"
    by (cases "endpoints_loop c xs [] lg")
  then have "fst (endpoints_loop c (xs @ ys) [] lg) = fst (endpoints_loop c ys eps lg1)"
    by (simp add: endpoints_loop_append)
  also have "\<dots> = eps @ fst (endpoints_loop c ys [] lg)" by (rule endpoints_loop_fst)
  finally show ?thesis using xs by simp
qed

lemma synthesis_in_context:
  assumes "hasValidVirtualServerIP v"
  shows "fst (endpointsFromVirtualServers c (xs @ v # ys) lg) =
           Inr (fst (endpoints_loop c xs [] lg)
                @ EndpointsForHostname c (Host (Spec v)) (resolve_targets c v)
                    (TTLFromAnnotations c (Annotations v) (resource_of v)) (resource_of v)
                @ fst (endpoints_loop c ys [] lg))"
proof -
  have "fst (endpoints_loop c (xs @ [v] @ ys) [] lg)
          = fst (endpoints_loop c xs [] lg) @ fst (endpoints_loop c [v] [] lg)
              @ fst (endpoints_loop c ys [] lg)"
    by (simp only: endpoints_loop_fst_append)
  then show ?thesis
    using assms by (simp add: fst_endpointsFromVirtualServers Let_def)
qed



subsection \<open>The validity gate\<close>



subsection \<open>The scenario objects\<close>

lemma scenario_gate: "hasValidVirtualServerIP (scenario_vs sp ''10.0.0.5'' a)"
  by (simp add: hasValidVirtualServerIP_def scenario_vs_def ToLower_def toLower_byte_def)

lemma scenario_informer:
  "virtualServerInformer (scenario_source e objs) (namespace (scenario_source e objs)) = Inr objs"
  by (simp add: scenario_source_def)

lemma scenario_convert_object:
  "convert_object (scenario_source e objs) (Unstructured (Some v)) = Inr v"
  by (simp add: convert_object_def scenario_source_def scenario_convert_def)

lemma scenario_empty_filter:
  "filterByAnnotations spec_collaborators (scenario_source '''' objs) vss = Inr vss"
  by (simp add: filterByAnnotations_def spec_collaborators_def scenario_source_def
      parse_filter_def)

lemma scenario_construction:
  "NewF5VirtualServerSource scenario_environment ''default'' e = Inr (scenario_source e [])"
  by (simp add: NewF5VirtualServerSource_def newVSUnstructuredConverter_def
      scenario_environment_def scenario_source_def)

lemma scenario_malformed:
  "ParseFilter spec_collaborators ''=prod'' = Inl (New ''unable to parse requirement: =prod'')"
  by (simp add: spec_collaborators_def parse_filter_def)

lemmas scenario_eval =
  Let_def hasValidVirtualServerIP_def ToLower_def toLower_byte_def spec_collaborators_def
  endpoints_for_hostname_def resource_of_def resolve_targets_def targets_from_annotation_def
  scenario_vs_def

subsection \<open>Conversion and the result of Endpoints\<close>

lemma convert_loop_Inr:
  "\<forall>obj\<in>set objs. \<exists>v. convert_object s obj = Inr v \<Longrightarrow>
     convert_loop s objs acc = Inr (acc @ map (\<lambda>obj. projr (convert_object s obj)) objs)"
  by (induction objs arbitrary: acc) auto

lemma convert_loop_Inl:
  "obj \<in> set objs \<Longrightarrow> convert_object s obj = Inl err \<Longrightarrow>
     \<exists>bad err'. bad \<in> set objs \<and> convert_object s bad = Inl err'
        \<and> convert_loop s objs acc = Inl err'"
proof (induction objs arbitrary: acc)
  case Nil
  then show ?case by simp
next
  case (Cons x rest)
  show ?case
  proof (cases "convert_object s x")
    case (Inl e)
    then show ?thesis by auto
  next
    case (Inr v)
    with Cons.prems have "obj \<in> set rest" by auto
    from Cons.IH [OF this Cons.prems(2), of "acc @ [v]"] Inr show ?thesis by auto
  qed
qed

lemma endpointsFromVirtualServers_eq:
  "endpointsFromVirtualServers c vss lg =
     (Inr (fst (endpoints_loop c vss [] [])), snd (endpoints_loop c vss [] lg))"
  using endpoints_loop_fst [of c vss "[]" lg "[]"]
  by (cases "endpoints_loop c vss [] lg") (simp add: endpointsFromVirtualServers_def)

text \<open>What \<^verbatim>\<open>Endpoints\<close> returns does not depend on the log it started with.\<close>

lemma Endpoints_fst:
  "fst (Endpoints c s lg) =
     (case virtualServerInformer s (namespace s) of
        Inl err \<Rightarrow> Inl err
      | Inr objs \<Rightarrow>
          (case convert_loop s objs [] of
             Inl err \<Rightarrow> Inl err
           | Inr vss \<Rightarrow>
               (case filterByAnnotations c s vss of
                  Inl err \<Rightarrow> Inl (Errorf ''failed to filter VirtualServers: '' err)
                | Inr kept \<Rightarrow> Inr (map sort_Targets (fst (endpoints_loop c kept [] []))))))"
  by (simp add: Endpoints_def endpointsFromVirtualServers_eq split: sum.splits)

lemma sorted_sort_Targets: "sorted (Targets (sort_Targets ep))"
  by (simp add: sort_Targets_def)

text \<open>Scenario 1 of the specification: the status address is the only target.\<close>

lemma scenario_1:
  "Endpoints spec_collaborators
     (scenario_source '''' [Unstructured (Some (scenario_vs '''' ''10.0.0.5'' Map.empty))]) lg
     = (Inr [\<lparr>DNSName = ''a.example.com'', Targets = [''10.0.0.5''], RecordTTL = 0,
               Labels = [''resource'' \<mapsto> ''f5-virtualserver/default/vs1'']\<rparr>], lg)"
proof -
  let ?v = "scenario_vs '''' ''10.0.0.5'' Map.empty"
  have g: "hasValidVirtualServerIP ?v" by (rule scenario_gate)
  have t: "resolve_targets spec_collaborators ?v = [''10.0.0.5'']"
    by (simp add: resolve_targets_def spec_collaborators_def scenario_vs_def
        targets_from_annotation_def)
  have "endpointsFromVirtualServers spec_collaborators [?v] lg
          = (Inr [\<lparr>DNSName = ''a.example.com'', Targets = [''10.0.0.5''], RecordTTL = 0,
                    Labels = [''resource'' \<mapsto> ''f5-virtualserver/default/vs1'']\<rparr>], lg)"
    by (simp only: endpointsFromVirtualServers_valid [OF g] t)
      (simp add: spec_collaborators_def endpoints_for_hostname_def resource_of_def scenario_vs_def)
  then show ?thesis
    by (simp add: Endpoints_def scenario_informer scenario_convert_object scenario_empty_filter
        sort_Targets_def del: endpoints_loop.simps)
qed

text \<open>
  Scenario 3 of the specification: the targets of the annotation, sorted, and the spec
  address \<open>9.9.9.9\<close> ignored.
\<close>

lemma scenario_3:
  "fst (Endpoints spec_collaborators
         (scenario_source ''''
            [Unstructured (Some (scenario_vs ''9.9.9.9'' ''10.0.0.5''
                                   [''target'' \<mapsto> ''5.6.7.8,1.2.3.4'']))]) lg)
     = Inr [\<lparr>DNSName = ''a.example.com'', Targets = [''1.2.3.4'', ''5.6.7.8''], RecordTTL = 0,
              Labels = [''resource'' \<mapsto> ''f5-virtualserver/default/vs1'']\<rparr>]"
proof -
  let ?v = "scenario_vs ''9.9.9.9'' ''10.0.0.5'' [''target'' \<mapsto> ''5.6.7.8,1.2.3.4'']"
  have g: "hasValidVirtualServerIP ?v" by (rule scenario_gate)
  have t: "resolve_targets spec_collaborators ?v = [''5.6.7.8'', ''1.2.3.4'']"
    by (simp add: resolve_targets_def spec_collaborators_def scenario_vs_def
        targets_from_annotation_def)
  have l: "fst (endpoints_loop spec_collaborators [?v] [] [])
             = [\<lparr>DNSName = ''a.example.com'', Targets = [''5.6.7.8'', ''1.2.3.4''], RecordTTL = 0,
                  Labels = [''resource'' \<mapsto> ''f5-virtualserver/default/vs1'']\<rparr>]"
    using g t
    by (simp add: Let_def) (simp add: spec_collaborators_def endpoints_for_hostname_def
        resource_of_def scenario_vs_def)
  have "fst (Endpoints spec_collaborators (scenario_source '''' [Unstructured (Some ?v)]) lg)
          = Inr (map sort_Targets (fst (endpoints_loop spec_collaborators [?v] [] [])))"
    by (simp add: Endpoints_fst scenario_informer scenario_convert_object scenario_empty_filter
        del: endpoints_loop.simps)
  also have "\<dots> = Inr [\<lparr>DNSName = ''a.example.com'', Targets = [''1.2.3.4'', ''5.6.7.8''],
                         RecordTTL = 0,
                         Labels = [''resource'' \<mapsto> ''f5-virtualserver/default/vs1'']\<rparr>]"
    by (simp only: l) (simp add: sort_Targets_def)
  finally show ?thesis .
qed


lemma convert_loop_first_failure:
  "\<forall>obj\<in>set pre. \<exists>v. convert_object s obj = Inr v \<Longrightarrow> convert_object s bad = Inl err \<Longrightarrow>
     convert_loop s (pre @ bad # post) acc = Inl err"
  by (induction pre arbitrary: acc) auto

lemma convert_loop_append:
  "convert_loop s (xs @ ys) acc =
     (case convert_loop s xs acc of Inl err \<Rightarrow> Inl err | Inr acc' \<Rightarrow> convert_loop s ys acc')"
  by (induction xs arbitrary: acc) (simp_all split: sum.splits)

lemma convert_loop_acc:
  "convert_loop s objs acc =
     (case convert_loop s objs [] of Inl err \<Rightarrow> Inl err | Inr vss \<Rightarrow> Inr (acc @ vss))"
proof (induction objs arbitrary: acc)
  case Nil
  show ?case by simp
next
  case (Cons obj rest)
  show ?case
  proof (cases "convert_object s obj")
    case (Inl err)
    then show ?thesis by simp
  next
    case (Inr v)
    then show ?thesis
      using Cons.IH [of "acc @ [v]"] Cons.IH [of "[v]"] by (simp split: sum.splits)
  qed
qed

lemma convert_object_informer [simp]:
  "convert_object (s\<lparr>virtualServerInformer := f\<rparr>) obj = convert_object s obj"
  by (simp add: convert_object_def split: runtime_object.splits)

lemma convert_loop_informer [simp]:
  "convert_loop (s\<lparr>virtualServerInformer := f\<rparr>) objs acc = convert_loop s objs acc"
  by (induction objs arbitrary: acc) (simp_all split: sum.splits)

lemma filterByAnnotations_informer [simp]:
  "filterByAnnotations c (s\<lparr>virtualServerInformer := f\<rparr>) vss = filterByAnnotations c s vss"
  by (simp add: filterByAnnotations_def)


lemma Endpoints_in_context:
  assumes "virtualServerInformer s (namespace s) = Inr objs"
    and "convert_loop s objs [] = Inr vss"
    and "filterByAnnotations c s vss = Inr (xs @ v # ys)"
    and "hasValidVirtualServerIP v"
  shows "fst (Endpoints c s lg) =
           Inr (map sort_Targets (fst (endpoints_loop c xs [] lg))
                @ map sort_Targets
                    (EndpointsForHostname c (Host (Spec v)) (resolve_targets c v)
                       (TTLFromAnnotations c (Annotations v) (resource_of v)) (resource_of v))
                @ map sort_Targets (fst (endpoints_loop c ys [] lg)))"
proof -
  have "fst (Endpoints c s lg)
          = Inr (map sort_Targets (fst (endpoints_loop c (xs @ v # ys) [] lg)))"
    using assms(1-3) endpoints_loop_fst [of c "xs @ v # ys" "[]" lg "[]"]
    by (simp add: Endpoints_fst)
  also have "fst (endpoints_loop c (xs @ v # ys) [] lg)
          = fst (endpoints_loop c xs [] lg)
              @ EndpointsForHostname c (Host (Spec v)) (resolve_targets c v)
                    (TTLFromAnnotations c (Annotations v) (resource_of v)) (resource_of v)
              @ fst (endpoints_loop c ys [] lg)"
    using synthesis_in_context [OF assms(4), of c xs ys lg]
    by (simp add: fst_endpointsFromVirtualServers)
  finally show ?thesis by simp
qed

subsection \<open>Target resolution\<close>

text \<open>
  Claim C2. For a VirtualServer that passes the validity gate and whose target
  annotation yields at least one address, the targets handed to record construction are
  exactly the addresses of the annotation, wherever the object stands in the list: the
  records of \<open>xs @ v # ys\<close> are the records of \<open>xs\<close>, then what
  \<^verbatim>\<open>EndpointsForHostname\<close> builds from the addresses of the annotation and nothing
  else, then the records of \<open>ys\<close>. The spec-level and the status-level address are
  ignored: replacing them by any other values (with a status address that still passes
  the gate) leaves the records unchanged. When the filtered list of a call of
  \<^verbatim>\<open>Endpoints\<close> is \<open>xs @ v # ys\<close>, the call returns these records with their
  targets sorted; so when record construction attaches to each record the target list it
  was given, every record of the object that \<^verbatim>\<open>Endpoints\<close> returns carries the
  addresses of the annotation in sorted order.
\<close>

theorem annotation_targets_override:
  assumes "hasValidVirtualServerIP v"
    and "TargetsFromTargetAnnotation c (Annotations v) \<noteq> []"
  shows "resolve_targets c v = TargetsFromTargetAnnotation c (Annotations v)
       \<and> fst (endpointsFromVirtualServers c (xs @ v # ys) lg) =
           Inr (fst (endpoints_loop c xs [] lg)
                @ EndpointsForHostname c (Host (Spec v))
                    (TargetsFromTargetAnnotation c (Annotations v))
                    (TTLFromAnnotations c (Annotations v) (resource_of v)) (resource_of v)
                @ fst (endpoints_loop c ys [] lg))
       \<and> (hasValidVirtualServerIP (v\<lparr>Status := \<lparr>VSAddress = statusAddress\<rparr>\<rparr>) \<longrightarrow>
            fst (endpointsFromVirtualServers c
              (xs @ v\<lparr>Spec := (Spec v)\<lparr>VirtualServerAddress := specAddress\<rparr>,
                      Status := \<lparr>VSAddress = statusAddress\<rparr>\<rparr> # ys) lg)
            = fst (endpointsFromVirtualServers c (xs @ v # ys) lg))
       \<and> (virtualServerInformer s (namespace s) = Inr objs \<longrightarrow>
          convert_loop s objs [] = Inr vss \<longrightarrow>
          filterByAnnotations c s vss = Inr (xs @ v # ys) \<longrightarrow>
            fst (Endpoints c s lg) =
              Inr (map sort_Targets (fst (endpoints_loop c xs [] lg))
                   @ map sort_Targets
                       (EndpointsForHostname c (Host (Spec v))
                          (TargetsFromTargetAnnotation c (Annotations v))
                          (TTLFromAnnotations c (Annotations v) (resource_of v)) (resource_of v))
                   @ map sort_Targets (fst (endpoints_loop c ys [] lg)))
            \<and> ((\<forall>ep\<in>set (EndpointsForHostname c (Host (Spec v))
                            (TargetsFromTargetAnnotation c (Annotations v))
                            (TTLFromAnnotations c (Annotations v) (resource_of v))
                            (resource_of v)).
                   Targets ep = TargetsFromTargetAnnotation c (Annotations v)) \<longrightarrow>
                (\<forall>ep\<in>set (map sort_Targets
                            (EndpointsForHostname c (Host (Spec v))
                               (TargetsFromTargetAnnotation c (Annotations v))
                               (TTLFromAnnotations c (Annotations v) (resource_of v))
                               (resource_of v))).
                   Targets ep = sort (TargetsFromTargetAnnotation c (Annotations v)))))"
proof -
  let ?v' = "v\<lparr>Spec := (Spec v)\<lparr>VirtualServerAddress := specAddress\<rparr>,
                 Status := \<lparr>VSAddress = statusAddress\<rparr>\<rparr>"
  have r: "resolve_targets c v = TargetsFromTargetAnnotation c (Annotations v)"
    using assms(2) by (simp add: resolve_targets_def Let_def)
  have r': "resolve_targets c ?v' = TargetsFromTargetAnnotation c (Annotations v)"
    using assms(2) by (simp add: resolve_targets_def Let_def)
  note e = synthesis_in_context [OF assms(1), of c xs ys lg, unfolded r]
  have i: "fst (endpointsFromVirtualServers c (xs @ ?v' # ys) lg)
             = fst (endpointsFromVirtualServers c (xs @ v # ys) lg)"
    if "hasValidVirtualServerIP (v\<lparr>Status := \<lparr>VSAddress = statusAddress\<rparr>\<rparr>)"
  proof -
    from that have "hasValidVirtualServerIP ?v'"
      by (simp add: hasValidVirtualServerIP_def Let_def)
    from synthesis_in_context [OF this, of c xs ys lg] e r' show ?thesis
      by (simp add: resource_of_def)
  qed
  have p: "fst (Endpoints c s lg) =
              Inr (map sort_Targets (fst (endpoints_loop c xs [] lg))
                   @ map sort_Targets
                       (EndpointsForHostname c (Host (Spec v))
                          (TargetsFromTargetAnnotation c (Annotations v))
                          (TTLFromAnnotations c (Annotations v) (resource_of v)) (resource_of v))
                   @ map sort_Targets (fst (endpoints_loop c ys [] lg)))"
    if "virtualServerInformer s (namespace s) = Inr objs" "convert_loop s objs [] = Inr vss"
      "filterByAnnotations c s vss = Inr (xs @ v # ys)"
    using Endpoints_in_context [OF that assms(1), of lg] by (simp only: r)
  have t: "Targets (sort_Targets ep) = sort ts" if "Targets ep = ts" for ep ts
    using that by (simp add: sort_Targets_def)
  show ?thesis using r e i p t by auto
qed

text \<open>
  Scenario 3 of the specification between two other objects: the annotation
  \<open>5.6.7.8,1.2.3.4\<close> wins over the spec address \<open>9.9.9.9\<close>, other addresses give the
  same records, and \<^verbatim>\<open>Endpoints\<close> returns the record with sorted targets between
  the records of its neighbours.
\<close>

theorem annotation_targets_override_witness:
  "hasValidVirtualServerIP (scenario_vs ''9.9.9.9'' ''10.0.0.5'' [''target'' \<mapsto> ''5.6.7.8,1.2.3.4''])
   \<and> TargetsFromTargetAnnotation spec_collaborators
        (Annotations (scenario_vs ''9.9.9.9'' ''10.0.0.5'' [''target'' \<mapsto> ''5.6.7.8,1.2.3.4'']))
       = [''5.6.7.8'', ''1.2.3.4'']
   \<and> map Targets (projr (fst (endpointsFromVirtualServers spec_collaborators
        [scenario_vs '''' ''10.0.0.5'' Map.empty,
         scenario_vs ''9.9.9.9'' ''10.0.0.5'' [''target'' \<mapsto> ''5.6.7.8,1.2.3.4''],
         scenario_vs ''7.7.7.7'' ''10.0.0.5'' Map.empty] [])))
       = [[''10.0.0.5''], [''5.6.7.8'', ''1.2.3.4''], [''7.7.7.7'']]
   \<and> fst (endpointsFromVirtualServers spec_collaborators
        [scenario_vs '''' ''10.0.0.5'' Map.empty,
         scenario_vs ''8.8.8.8'' ''10.0.0.6'' [''target'' \<mapsto> ''5.6.7.8,1.2.3.4''],
         scenario_vs ''7.7.7.7'' ''10.0.0.5'' Map.empty] [])
       = fst (endpointsFromVirtualServers spec_collaborators
        [scenario_vs '''' ''10.0.0.5'' Map.empty,
         scenario_vs ''9.9.9.9'' ''10.0.0.5'' [''target'' \<mapsto> ''5.6.7.8,1.2.3.4''],
         scenario_vs ''7.7.7.7'' ''10.0.0.5'' Map.empty] [])
   \<and> fst (Endpoints spec_collaborators
        (scenario_source ''''
           [Unstructured (Some (scenario_vs '''' ''10.0.0.5'' Map.empty)),
            Unstructured (Some (scenario_vs ''9.9.9.9'' ''10.0.0.5''
                                  [''target'' \<mapsto> ''5.6.7.8,1.2.3.4''])),
            Unstructured (Some (scenario_vs ''7.7.7.7'' ''10.0.0.5'' Map.empty))]) [])
       = Inr [\<lparr>DNSName = ''a.example.com'', Targets = [''10.0.0.5''], RecordTTL = 0,
                Labels = [''resource'' \<mapsto> ''f5-virtualserver/default/vs1'']\<rparr>,
              \<lparr>DNSName = ''a.example.com'', Targets = [''1.2.3.4'', ''5.6.7.8''], RecordTTL = 0,
                Labels = [''resource'' \<mapsto> ''f5-virtualserver/default/vs1'']\<rparr>,
              \<lparr>DNSName = ''a.example.com'', Targets = [''7.7.7.7''], RecordTTL = 0,
                Labels = [''resource'' \<mapsto> ''f5-virtualserver/default/vs1'']\<rparr>]"
proof -
  let ?va = "scenario_vs '''' ''10.0.0.5'' Map.empty"
  let ?v = "scenario_vs ''9.9.9.9'' ''10.0.0.5'' [''target'' \<mapsto> ''5.6.7.8,1.2.3.4'']"
  let ?vc = "scenario_vs ''7.7.7.7'' ''10.0.0.5'' Map.empty"
  let ?objs = "[Unstructured (Some ?va), Unstructured (Some ?v), Unstructured (Some ?vc)]"
  let ?s = "scenario_source '''' ?objs"
  have g: "hasValidVirtualServerIP ?v" by (rule scenario_gate)
  have t: "TargetsFromTargetAnnotation spec_collaborators (Annotations ?v) = [''5.6.7.8'', ''1.2.3.4'']"
    by (simp add: spec_collaborators_def scenario_vs_def targets_from_annotation_def)
  then have n: "TargetsFromTargetAnnotation spec_collaborators (Annotations ?v) \<noteq> []" by simp
  have u: "?v\<lparr>Spec := (Spec ?v)\<lparr>VirtualServerAddress := ''8.8.8.8''\<rparr>,
                 Status := \<lparr>VSAddress = ''10.0.0.6''\<rparr>\<rparr>
           = scenario_vs ''8.8.8.8'' ''10.0.0.6'' [''target'' \<mapsto> ''5.6.7.8,1.2.3.4'']"
    by (simp add: scenario_vs_def)
  have g': "hasValidVirtualServerIP (?v\<lparr>Status := \<lparr>VSAddress = ''10.0.0.6''\<rparr>\<rparr>)"
    by (simp add: hasValidVirtualServerIP_def ToLower_def toLower_byte_def)
  have l: "virtualServerInformer ?s (namespace ?s) = Inr ?objs" by (rule scenario_informer)
  have cv: "convert_loop ?s ?objs [] = Inr [?va, ?v, ?vc]"
    by (simp add: scenario_convert_object)
  have f: "filterByAnnotations spec_collaborators ?s [?va, ?v, ?vc] = Inr ([?va] @ ?v # [?vc])"
    by (simp add: scenario_empty_filter)
  note m = annotation_targets_override [OF g n, where xs = "[?va]" and ys = "[?vc]"
      and lg = "[]" and s = ?s and objs = ?objs and vss = "[?va, ?v, ?vc]"
      and statusAddress = "''10.0.0.6''" and specAddress = "''8.8.8.8''"]
  from m have c3: "fst (endpointsFromVirtualServers spec_collaborators ([?va] @ ?v # [?vc]) []) =
           Inr (fst (endpoints_loop spec_collaborators [?va] [] [])
                @ EndpointsForHostname spec_collaborators (Host (Spec ?v))
                    (TargetsFromTargetAnnotation spec_collaborators (Annotations ?v))
                    (TTLFromAnnotations spec_collaborators (Annotations ?v) (resource_of ?v))
                    (resource_of ?v)
                @ fst (endpoints_loop spec_collaborators [?vc] [] []))"
    by blast
  from m g' have c4: "fst (endpointsFromVirtualServers spec_collaborators
              ([?va] @ ?v\<lparr>Spec := (Spec ?v)\<lparr>VirtualServerAddress := ''8.8.8.8''\<rparr>,
                      Status := \<lparr>VSAddress = ''10.0.0.6''\<rparr>\<rparr> # [?vc]) [])
            = fst (endpointsFromVirtualServers spec_collaborators ([?va] @ ?v # [?vc]) [])"
    by blast
  from m l cv f have c5: "fst (Endpoints spec_collaborators ?s []) =
              Inr (map sort_Targets (fst (endpoints_loop spec_collaborators [?va] [] []))
                   @ map sort_Targets
                       (EndpointsForHostname spec_collaborators (Host (Spec ?v))
                          (TargetsFromTargetAnnotation spec_collaborators (Annotations ?v))
                          (TTLFromAnnotations spec_collaborators (Annotations ?v) (resource_of ?v))
                          (resource_of ?v))
                   @ map sort_Targets (fst (endpoints_loop spec_collaborators [?vc] [] [])))"
    by blast
  have d3: "map Targets (projr (fst (endpointsFromVirtualServers spec_collaborators
              [?va, ?v, ?vc] []))) = [[''10.0.0.5''], [''5.6.7.8'', ''1.2.3.4''], [''7.7.7.7'']]"
    using c3 by (simp add: scenario_eval)
  have d4: "fst (endpointsFromVirtualServers spec_collaborators
        [?va, scenario_vs ''8.8.8.8'' ''10.0.0.6'' [''target'' \<mapsto> ''5.6.7.8,1.2.3.4''], ?vc] [])
       = fst (endpointsFromVirtualServers spec_collaborators [?va, ?v, ?vc] [])"
    using c4 by (simp only: u append.simps)
  have d5: "fst (Endpoints spec_collaborators ?s [])
       = Inr [\<lparr>DNSName = ''a.example.com'', Targets = [''10.0.0.5''], RecordTTL = 0,
                Labels = [''resource'' \<mapsto> ''f5-virtualserver/default/vs1'']\<rparr>,
              \<lparr>DNSName = ''a.example.com'', Targets = [''1.2.3.4'', ''5.6.7.8''], RecordTTL = 0,
                Labels = [''resource'' \<mapsto> ''f5-virtualserver/default/vs1'']\<rparr>,
              \<lparr>DNSName = ''a.example.com'', Targets = [''7.7.7.7''], RecordTTL = 0,
                Labels = [''resource'' \<mapsto> ''f5-virtualserver/default/vs1'']\<rparr>]"
    unfolding c5 by (simp add: scenario_eval sort_Targets_def)
  from g t d3 d4 d5 show ?thesis by simp
qed

text \<open>
  Claim C3. For a VirtualServer that passes the validity gate and whose target
  annotation yields no address, wherever the object stands in the list: a non-empty
  spec-level address is the only target handed to record construction, whatever the
  status-level address is; with an empty spec-level address, a non-empty status-level
  address is the only target. The records of \<open>xs @ v # ys\<close> are the records of \<open>xs\<close>,
  then what \<^verbatim>\<open>EndpointsForHostname\<close> builds from that one address, then the records
  of \<open>ys\<close>, and a call of \<^verbatim>\<open>Endpoints\<close> whose filtered list is \<open>xs @ v # ys\<close>
  returns these records with their targets sorted.
\<close>

theorem spec_address_before_status_address:
  assumes "hasValidVirtualServerIP v"
    and "TargetsFromTargetAnnotation c (Annotations v) = []"
  shows "(VirtualServerAddress (Spec v) \<noteq> '''' \<longrightarrow>
            resolve_targets c v = [VirtualServerAddress (Spec v)]
          \<and> fst (endpointsFromVirtualServers c (xs @ v # ys) lg) =
              Inr (fst (endpoints_loop c xs [] lg)
                   @ EndpointsForHostname c (Host (Spec v)) [VirtualServerAddress (Spec v)]
                       (TTLFromAnnotations c (Annotations v) (resource_of v)) (resource_of v)
                   @ fst (endpoints_loop c ys [] lg)))
       \<and> (VirtualServerAddress (Spec v) = '''' \<longrightarrow> VSAddress (Status v) \<noteq> '''' \<longrightarrow>
            resolve_targets c v = [VSAddress (Status v)]
          \<and> fst (endpointsFromVirtualServers c (xs @ v # ys) lg) =
              Inr (fst (endpoints_loop c xs [] lg)
                   @ EndpointsForHostname c (Host (Spec v)) [VSAddress (Status v)]
                       (TTLFromAnnotations c (Annotations v) (resource_of v)) (resource_of v)
                   @ fst (endpoints_loop c ys [] lg)))
       \<and> (virtualServerInformer s (namespace s) = Inr objs \<longrightarrow>
          convert_loop s objs [] = Inr vss \<longrightarrow>
          filterByAnnotations c s vss = Inr (xs @ v # ys) \<longrightarrow>
            fst (Endpoints c s lg) =
              Inr (map sort_Targets (fst (endpoints_loop c xs [] lg))
                   @ map sort_Targets
                       (EndpointsForHostname c (Host (Spec v))
                          (if VirtualServerAddress (Spec v) \<noteq> ''''
                           then [VirtualServerAddress (Spec v)] else [VSAddress (Status v)])
                          (TTLFromAnnotations c (Annotations v) (resource_of v)) (resource_of v))
                   @ map sort_Targets (fst (endpoints_loop c ys [] lg))))"
proof -
  note e = synthesis_in_context [OF assms(1), of c xs ys lg]
  from assms(1) have st: "VSAddress (Status v) \<noteq> ''''" by (rule gate_status_nonempty)
  have a: "resolve_targets c v = [VirtualServerAddress (Spec v)]"
    if "VirtualServerAddress (Spec v) \<noteq> ''''"
    using that assms(2) by (simp add: resolve_targets_def Let_def)
  have b: "resolve_targets c v = [VSAddress (Status v)]"
    if "VirtualServerAddress (Spec v) = ''''" "VSAddress (Status v) \<noteq> ''''"
    using that assms(2) by (simp add: resolve_targets_def Let_def)
  have r: "resolve_targets c v =
             (if VirtualServerAddress (Spec v) \<noteq> ''''
              then [VirtualServerAddress (Spec v)] else [VSAddress (Status v)])"
    using a b st by simp
  have p: "fst (Endpoints c s lg) =
              Inr (map sort_Targets (fst (endpoints_loop c xs [] lg))
                   @ map sort_Targets
                       (EndpointsForHostname c (Host (Spec v))
                          (if VirtualServerAddress (Spec v) \<noteq> ''''
                           then [VirtualServerAddress (Spec v)] else [VSAddress (Status v)])
                          (TTLFromAnnotations c (Annotations v) (resource_of v)) (resource_of v))
                   @ map sort_Targets (fst (endpoints_loop c ys [] lg)))"
    if "virtualServerInformer s (namespace s) = Inr objs" "convert_loop s objs [] = Inr vss"
      "filterByAnnotations c s vss = Inr (xs @ v # ys)"
    using Endpoints_in_context [OF that assms(1), of lg] by (simp only: r)
  show ?thesis using e a b p by auto
qed

text \<open>
  Three objects without annotation: spec address \<open>9.9.9.9\<close>, spec address \<open>8.8.8.8\<close>
  (both with a status address), and no spec address (scenario 1 of the specification);
  each gets its own record.
\<close>

theorem spec_address_before_status_address_witness:
  "hasValidVirtualServerIP (scenario_vs ''8.8.8.8'' ''10.0.0.5'' Map.empty)
   \<and> TargetsFromTargetAnnotation spec_collaborators
        (Annotations (scenario_vs ''8.8.8.8'' ''10.0.0.5'' Map.empty)) = []
   \<and> resolve_targets spec_collaborators (scenario_vs '''' ''10.0.0.5'' Map.empty)
       = [''10.0.0.5'']
   \<and> map Targets (projr (fst (endpointsFromVirtualServers spec_collaborators
        [scenario_vs ''9.9.9.9'' ''10.0.0.5'' Map.empty,
         scenario_vs ''8.8.8.8'' ''10.0.0.5'' Map.empty,
         scenario_vs '''' ''10.0.0.5'' Map.empty] [])))
       = [[''9.9.9.9''], [''8.8.8.8''], [''10.0.0.5'']]
   \<and> fst (Endpoints spec_collaborators
        (scenario_source ''''
           [Unstructured (Some (scenario_vs ''9.9.9.9'' ''10.0.0.5'' Map.empty)),
            Unstructured (Some (scenario_vs ''8.8.8.8'' ''10.0.0.5'' Map.empty)),
            Unstructured (Some (scenario_vs '''' ''10.0.0.5'' Map.empty))]) [])
       = Inr [\<lparr>DNSName = ''a.example.com'', Targets = [''9.9.9.9''], RecordTTL = 0,
                Labels = [''resource'' \<mapsto> ''f5-virtualserver/default/vs1'']\<rparr>,
              \<lparr>DNSName = ''a.example.com'', Targets = [''8.8.8.8''], RecordTTL = 0,
                Labels = [''resource'' \<mapsto> ''f5-virtualserver/default/vs1'']\<rparr>,
              \<lparr>DNSName = ''a.example.com'', Targets = [''10.0.0.5''], RecordTTL = 0,
                Labels = [''resource'' \<mapsto> ''f5-virtualserver/default/vs1'']\<rparr>]"
proof -
  let ?vx = "scenario_vs ''9.9.9.9'' ''10.0.0.5'' Map.empty"
  let ?vy = "scenario_vs ''8.8.8.8'' ''10.0.0.5'' Map.empty"
  let ?vz = "scenario_vs '''' ''10.0.0.5'' Map.empty"
  let ?objs = "[Unstructured (Some ?vx), Unstructured (Some ?vy), Unstructured (Some ?vz)]"
  let ?s = "scenario_source '''' ?objs"
  have t: "TargetsFromTargetAnnotation spec_collaborators
             (Annotations (scenario_vs sp ''10.0.0.5'' Map.empty)) = []" for sp
    by (simp add: spec_collaborators_def scenario_vs_def targets_from_annotation_def)
  have gy: "hasValidVirtualServerIP ?vy" and gz: "hasValidVirtualServerIP ?vz"
    by (rule scenario_gate)+
  have l: "virtualServerInformer ?s (namespace ?s) = Inr ?objs" by (rule scenario_informer)
  have cv: "convert_loop ?s ?objs [] = Inr [?vx, ?vy, ?vz]"
    by (simp add: scenario_convert_object)
  have f8: "filterByAnnotations spec_collaborators ?s [?vx, ?vy, ?vz] = Inr ([?vx] @ ?vy # [?vz])"
    and f0: "filterByAnnotations spec_collaborators ?s [?vx, ?vy, ?vz] = Inr ([?vx, ?vy] @ ?vz # [])"
    by (simp_all add: scenario_empty_filter)
  note m = spec_address_before_status_address [OF gy t, where xs = "[?vx]" and ys = "[?vz]"
      and lg = "[]" and s = ?s and objs = ?objs and vss = "[?vx, ?vy, ?vz]"]
  note n = spec_address_before_status_address [OF gz t, where xs = "[?vx, ?vy]" and ys = "[]"
      and lg = "[]" and s = ?s and objs = ?objs and vss = "[?vx, ?vy, ?vz]"]
  have a8: "VirtualServerAddress (Spec ?vy) \<noteq> ''''" by (simp add: scenario_vs_def)
  have a0: "VirtualServerAddress (Spec ?vz) = ''''" "VSAddress (Status ?vz) \<noteq> ''''"
    by (simp_all add: scenario_vs_def)
  from m a8 have s8: "fst (endpointsFromVirtualServers spec_collaborators ([?vx] @ ?vy # [?vz]) []) =
              Inr (fst (endpoints_loop spec_collaborators [?vx] [] [])
                   @ EndpointsForHostname spec_collaborators (Host (Spec ?vy))
                       [VirtualServerAddress (Spec ?vy)]
                       (TTLFromAnnotations spec_collaborators (Annotations ?vy) (resource_of ?vy))
                       (resource_of ?vy)
                   @ fst (endpoints_loop spec_collaborators [?vz] [] []))"
    by blast
  from n a0 have s0: "resolve_targets spec_collaborators ?vz = [VSAddress (Status ?vz)]"
    by blast
  from m l cv f8 have e8: "fst (Endpoints spec_collaborators ?s []) =
              Inr (map sort_Targets (fst (endpoints_loop spec_collaborators [?vx] [] []))
                   @ map sort_Targets
                       (EndpointsForHostname spec_collaborators (Host (Spec ?vy))
                          (if VirtualServerAddress (Spec ?vy) \<noteq> ''''
                           then [VirtualServerAddress (Spec ?vy)] else [VSAddress (Status ?vy)])
                          (TTLFromAnnotations spec_collaborators (Annotations ?vy) (resource_of ?vy))
                          (resource_of ?vy))
                   @ map sort_Targets (fst (endpoints_loop spec_collaborators [?vz] [] [])))"
    by blast
  have c3: "map Targets (projr (fst (endpointsFromVirtualServers spec_collaborators
        [?vx, ?vy, ?vz] []))) = [[''9.9.9.9''], [''8.8.8.8''], [''10.0.0.5'']]"
    using s8 by (simp add: scenario_eval)
  have c4: "fst (Endpoints spec_collaborators ?s [])
       = Inr [\<lparr>DNSName = ''a.example.com'', Targets = [''9.9.9.9''], RecordTTL = 0,
                Labels = [''resource'' \<mapsto> ''f5-virtualserver/default/vs1'']\<rparr>,
              \<lparr>DNSName = ''a.example.com'', Targets = [''8.8.8.8''], RecordTTL = 0,
                Labels = [''resource'' \<mapsto> ''f5-virtualserver/default/vs1'']\<rparr>,
              \<lparr>DNSName = ''a.example.com'', Targets = [''10.0.0.5''], RecordTTL = 0,
                Labels = [''resource'' \<mapsto> ''f5-virtualserver/default/vs1'']\<rparr>]"
    unfolding e8 by (simp add: scenario_eval sort_Targets_def)
  from s0 have c2: "resolve_targets spec_collaborators ?vz = [''10.0.0.5'']"
    by (simp add: scenario_vs_def)
  from gy t [of "''8.8.8.8''"] c2 c3 c4 show ?thesis by simp
qed



subsection \<open>Deterministic ordering\<close>






subsection \<open>Filtering\<close>

text \<open>
  Claim C5. With an empty annotation-filter expression, \<^verbatim>\<open>filterByAnnotations\<close>
  returns the list it was given, unchanged, for every list of VirtualServers, and without
  consulting \<^verbatim>\<open>Matches\<close> (the result is the same whatever \<^verbatim>\<open>Matches\<close> would
  answer). The parser is a collaborator: the statement is for a parser that compiles the
  empty expression to a selector that reports \<^verbatim>\<open>Empty\<close>.
\<close>

theorem empty_filter_is_identity:
  assumes "annotationFilter s = ''''"
    and "ParseFilter c '''' = Inr selector"
    and "Empty c selector"
  shows "filterByAnnotations c s virtualServers = Inr virtualServers
       \<and> filterByAnnotations (c\<lparr>Matches := m\<rparr>) s virtualServers = Inr virtualServers"
  using assms by (simp add: filterByAnnotations_def)

theorem empty_filter_is_identity_witness:
  "annotationFilter (scenario_source '''' []) = ''''
   \<and> ParseFilter spec_collaborators '''' = Inr Everything
   \<and> Empty spec_collaborators Everything
   \<and> filterByAnnotations spec_collaborators (scenario_source '''' [])
        [scenario_vs '''' ''10.0.0.5'' [''environment'' \<mapsto> ''dev''],
         scenario_vs '''' ''10.0.0.5'' [''environment'' \<mapsto> ''prod'']]
       = Inr [scenario_vs '''' ''10.0.0.5'' [''environment'' \<mapsto> ''dev''],
              scenario_vs '''' ''10.0.0.5'' [''environment'' \<mapsto> ''prod'']]"
proof -
  have a: "annotationFilter (scenario_source '''' ([] :: VirtualServer option runtime_object list)) = ''''"
    by (simp add: scenario_source_def)
  have p: "ParseFilter spec_collaborators '''' = Inr Everything"
    by (simp add: spec_collaborators_def parse_filter_def)
  have e: "Empty spec_collaborators Everything"
    by (simp add: spec_collaborators_def)
  from empty_filter_is_identity [OF a p e] a p e show ?thesis by simp
qed

text \<open>
  Claim C6. For an annotation-filter expression that parses, \<^verbatim>\<open>filterByAnnotations\<close>
  returns exactly the objects of its input whose annotations match the compiled selector,
  in their order and as they were (the result is a sublist of the input);
  \<^verbatim>\<open>Endpoints\<close> runs the synthesis on exactly that list; and a cached object whose
  annotations do not match contributes nothing: the call returns what it returns for the
  cache without that object, records and log alike. The selector is a collaborator: the
  statement is for a selector that, when it reports \<^verbatim>\<open>Empty\<close>, matches every
  annotation map, which covers every selector compiled from a non-empty expression that
  does not report \<^verbatim>\<open>Empty\<close>.
\<close>

theorem filter_keeps_exactly_the_matching_objects:
  assumes "ParseFilter c (annotationFilter s) = Inr selector"
    and "Empty c selector \<longrightarrow> (\<forall>a. Matches c selector a)"
  shows "filterByAnnotations c s virtualServers
           = Inr (filter (\<lambda>v. Matches c selector (Annotations v)) virtualServers)
       \<and> (virtualServerInformer s (namespace s) = Inr objs \<longrightarrow>
          convert_loop s objs [] = Inr vss \<longrightarrow>
            Endpoints c s lg =
              (Inr (map sort_Targets
                      (fst (endpoints_loop c
                              (filter (\<lambda>v. Matches c selector (Annotations v)) vss) [] lg))),
               snd (endpoints_loop c
                      (filter (\<lambda>v. Matches c selector (Annotations v)) vss) [] lg)))
       \<and> (virtualServerInformer s (namespace s) = Inr (pre @ obj # post) \<longrightarrow>
          convert_object s obj = Inr v \<longrightarrow>
          \<not> Matches c selector (Annotations v) \<longrightarrow>
            Endpoints c s lg
              = Endpoints c (s\<lparr>virtualServerInformer := (\<lambda>ns. Inr (pre @ post))\<rparr>) lg)"
proof -
  let ?P = "\<lambda>v. Matches c selector (Annotations v)"
  have eq: "filterByAnnotations c s' vss = Inr (filter ?P vss)"
    if "annotationFilter s' = annotationFilter s" for vss and s' :: "'c f5VirtualServerSource"
    using assms that by (simp add: filterByAnnotations_def)
  have run: "Endpoints c s' lg =
              (Inr (map sort_Targets (fst (endpoints_loop c (filter ?P vss) [] lg))),
               snd (endpoints_loop c (filter ?P vss) [] lg))"
    if "virtualServerInformer s' (namespace s') = Inr objs" "convert_loop s' objs [] = Inr vss"
      "annotationFilter s' = annotationFilter s"
    for objs vss and s' :: "'c f5VirtualServerSource"
    using that(1,2) eq [OF that(3)]
    by (cases "endpoints_loop c (filter ?P vss) [] lg")
      (simp add: Endpoints_def endpointsFromVirtualServers_def)
  have drop: "Endpoints c s lg
              = Endpoints c (s\<lparr>virtualServerInformer := (\<lambda>ns. Inr (pre @ post))\<rparr>) lg"
    if l: "virtualServerInformer s (namespace s) = Inr (pre @ obj # post)"
      and o: "convert_object s obj = Inr v" and m: "\<not> ?P v"
  proof -
    let ?s' = "s\<lparr>virtualServerInformer := (\<lambda>ns. Inr (pre @ post))\<rparr>"
    have l': "virtualServerInformer ?s' (namespace ?s') = Inr (pre @ post)" by simp
    show ?thesis
    proof (cases "convert_loop s pre []")
      case (Inl err)
      then show ?thesis using l by (simp add: Endpoints_def convert_loop_append)
    next
      case a: (Inr as)
      show ?thesis
      proof (cases "convert_loop s post []")
        case (Inl err)
        then have "convert_loop s post (as @ [v]) = Inl err" "convert_loop s post as = Inl err"
          by (simp_all add: convert_loop_acc [of s post "as @ [v]"] convert_loop_acc [of s post as])
        then show ?thesis
          using l a o by (simp add: Endpoints_def convert_loop_append)
      next
        case b: (Inr bs)
        have c1: "convert_loop s (pre @ obj # post) [] = Inr (as @ v # bs)"
          using a o b by (simp add: convert_loop_append convert_loop_acc [of s post "as @ [v]"])
        have c2: "convert_loop ?s' (pre @ post) [] = Inr (as @ bs)"
          using a b by (simp add: convert_loop_append convert_loop_acc [of s post as])
        from run [OF l c1] run [OF l' c2] m show ?thesis by simp
      qed
    qed
  qed
  from eq [of s] run [of s] drop show ?thesis by blast
qed

text \<open>
  Scenario 4 of the specification with a second object: with \<open>environment=prod\<close>, the
  object annotated \<open>environment: dev\<close> is dropped before the synthesis and the one
  annotated \<open>environment: prod\<close> gets its record.
\<close>

theorem filter_keeps_exactly_the_matching_objects_witness:
  "ParseFilter spec_collaborators
     (annotationFilter (scenario_source ''environment=prod''
        [Unstructured (Some (scenario_vs '''' ''10.0.0.5'' [''environment'' \<mapsto> ''dev''])),
         Unstructured (Some (scenario_vs '''' ''10.0.0.6'' [''environment'' \<mapsto> ''prod'']))]))
     = Inr (Equals ''environment'' ''prod'')
   \<and> \<not> Empty spec_collaborators (Equals ''environment'' ''prod'')
   \<and> \<not> Matches spec_collaborators (Equals ''environment'' ''prod'')
         (Annotations (scenario_vs '''' ''10.0.0.5'' [''environment'' \<mapsto> ''dev'']))
   \<and> filterByAnnotations spec_collaborators
        (scenario_source ''environment=prod''
           [Unstructured (Some (scenario_vs '''' ''10.0.0.5'' [''environment'' \<mapsto> ''dev''])),
            Unstructured (Some (scenario_vs '''' ''10.0.0.6'' [''environment'' \<mapsto> ''prod'']))])
        [scenario_vs '''' ''10.0.0.5'' [''environment'' \<mapsto> ''dev''],
         scenario_vs '''' ''10.0.0.6'' [''environment'' \<mapsto> ''prod'']]
       = Inr [scenario_vs '''' ''10.0.0.6'' [''environment'' \<mapsto> ''prod'']]
   \<and> Endpoints spec_collaborators
        (scenario_source ''environment=prod''
           [Unstructured (Some (scenario_vs '''' ''10.0.0.5'' [''environment'' \<mapsto> ''dev''])),
            Unstructured (Some (scenario_vs '''' ''10.0.0.6'' [''environment'' \<mapsto> ''prod'']))]) []
       = (Inr [\<lparr>DNSName = ''a.example.com'', Targets = [''10.0.0.6''], RecordTTL = 0,
                 Labels = [''resource'' \<mapsto> ''f5-virtualserver/default/vs1'']\<rparr>], [])
   \<and> Endpoints spec_collaborators
        (scenario_source ''environment=prod''
           [Unstructured (Some (scenario_vs '''' ''10.0.0.5'' [''environment'' \<mapsto> ''dev''])),
            Unstructured (Some (scenario_vs '''' ''10.0.0.6'' [''environment'' \<mapsto> ''prod'']))]) []
       = Endpoints spec_collaborators
        (scenario_source ''environment=prod''
           [Unstructured (Some (scenario_vs '''' ''10.0.0.6'' [''environment'' \<mapsto> ''prod'']))]) []"
proof -
  let ?dev = "scenario_vs '''' ''10.0.0.5'' [''environment'' \<mapsto> ''dev'']"
  let ?prod = "scenario_vs '''' ''10.0.0.6'' [''environment'' \<mapsto> ''prod'']"
  let ?objs = "[Unstructured (Some ?dev), Unstructured (Some ?prod)]"
  let ?s = "scenario_source ''environment=prod'' ?objs"
  let ?sel = "Equals ''environment'' ''prod''"
  have p: "ParseFilter spec_collaborators (annotationFilter ?s) = Inr ?sel"
    by (simp add: spec_collaborators_def scenario_source_def parse_filter_def)
  have e: "\<not> Empty spec_collaborators ?sel"
    by (simp add: spec_collaborators_def)
  then have e': "Empty spec_collaborators ?sel \<longrightarrow> (\<forall>a. Matches spec_collaborators ?sel a)"
    by simp
  have md: "\<not> Matches spec_collaborators ?sel (Annotations ?dev)"
    by (simp add: spec_collaborators_def scenario_vs_def)
  have mp: "Matches spec_collaborators ?sel (Annotations ?prod)"
    by (simp add: spec_collaborators_def scenario_vs_def)
  have l: "virtualServerInformer ?s (namespace ?s) = Inr ([] @ Unstructured (Some ?dev)
             # [Unstructured (Some ?prod)])"
    by (simp add: scenario_informer)
  have l': "virtualServerInformer ?s (namespace ?s) = Inr ?objs" by (rule scenario_informer)
  have cv: "convert_loop ?s ?objs [] = Inr [?dev, ?prod]"
    by (simp add: scenario_convert_object)
  have co: "convert_object ?s (Unstructured (Some ?dev)) = Inr ?dev"
    by (rule scenario_convert_object)
  have s': "?s\<lparr>virtualServerInformer := (\<lambda>ns. Inr ([] @ [Unstructured (Some ?prod)]))\<rparr>
              = scenario_source ''environment=prod'' [Unstructured (Some ?prod)]"
    by (simp add: scenario_source_def)
  note m = filter_keeps_exactly_the_matching_objects [OF p e', where lg = "[]"]
  from m [where virtualServers = "[?dev, ?prod]"] md mp
  have c4: "filterByAnnotations spec_collaborators ?s [?dev, ?prod] = Inr [?prod]"
    by simp
  from m [where objs = ?objs and vss = "[?dev, ?prod]"] l' cv
  have "Endpoints spec_collaborators ?s [] =
          (Inr (map sort_Targets (fst (endpoints_loop spec_collaborators
                  (filter (\<lambda>v. Matches spec_collaborators ?sel (Annotations v)) [?dev, ?prod])
                  [] []))),
           snd (endpoints_loop spec_collaborators
                  (filter (\<lambda>v. Matches spec_collaborators ?sel (Annotations v)) [?dev, ?prod])
                  [] []))"
    by blast
  then have c5: "Endpoints spec_collaborators ?s []
       = (Inr [\<lparr>DNSName = ''a.example.com'', Targets = [''10.0.0.6''], RecordTTL = 0,
                 Labels = [''resource'' \<mapsto> ''f5-virtualserver/default/vs1'']\<rparr>], [])"
    using md mp by (simp del: endpoints_loop.simps) (simp add: scenario_eval sort_Targets_def)
  from m [where pre = "[]" and obj = "Unstructured (Some ?dev)" and post = "[Unstructured (Some ?prod)]"
      and v = ?dev] l co md
  have c6: "Endpoints spec_collaborators ?s []
              = Endpoints spec_collaborators
                  (scenario_source ''environment=prod'' [Unstructured (Some ?prod)]) []"
    unfolding s' by blast
  from p e md c4 c5 c6 show ?thesis by simp
qed

text \<open>Scenario 4 of the specification through \<^verbatim>\<open>Endpoints\<close>: no record.\<close>

lemma scenario_4:
  "Endpoints spec_collaborators
     (scenario_source ''environment=prod''
        [Unstructured (Some (scenario_vs '''' ''10.0.0.5'' [''environment'' \<mapsto> ''dev'']))]) lg
     = (Inr [], lg)"
proof -
  have "filterByAnnotations spec_collaborators (scenario_source ''environment=prod'' objs)
          [scenario_vs '''' ''10.0.0.5'' [''environment'' \<mapsto> ''dev'']] = Inr []" for objs
    by (simp add: filterByAnnotations_def spec_collaborators_def scenario_source_def
        parse_filter_def scenario_vs_def)
  then show ?thesis
    by (simp add: Endpoints_def scenario_informer scenario_convert_object
        endpointsFromVirtualServers_def)
qed

subsection \<open>Errors\<close>

text \<open>
  Claim C7. If any object of the cache fails conversion (its dynamic type is not
  \<^verbatim>\<open>*unstructured.Unstructured\<close>, or \<^verbatim>\<open>scheme.Convert\<close> fails on it), the call of
  \<^verbatim>\<open>Endpoints\<close> returns an error and no endpoint list, whatever the other objects are;
  the error is the conversion error of an object of the cache (the first that fails), and
  nothing is synthesised or logged.
\<close>

theorem conversion_failure_aborts_the_call:
  assumes "virtualServerInformer s (namespace s) = Inr objs"
    and "obj \<in> set objs"
    and "convert_object s obj = Inl err"
  shows "\<exists>bad err'. bad \<in> set objs \<and> convert_object s bad = Inl err'
           \<and> Endpoints c s lg = (Inl err', lg)"
proof -
  from convert_loop_Inl [OF assms(2,3), of "[]"]
  obtain bad err' where "bad \<in> set objs" "convert_object s bad = Inl err'"
    "convert_loop s objs [] = Inl err'" by blast
  with assms(1) show ?thesis by (auto simp add: Endpoints_def)
qed

text \<open>An object of another dynamic type between two objects that convert.\<close>

theorem conversion_failure_aborts_the_call_witness:
  "convert_object (scenario_source '''' []) (OtherObject :: VirtualServer option runtime_object)
     = Inl (New ''could not convert'')
   \<and> Endpoints spec_collaborators
       (scenario_source ''''
          [Unstructured (Some (scenario_vs '''' ''10.0.0.5'' Map.empty)), OtherObject,
           Unstructured (Some (scenario_vs '''' ''10.0.0.6'' Map.empty))]) []
      = (Inl (New ''could not convert''), [])"
proof -
  let ?objs = "[Unstructured (Some (scenario_vs '''' ''10.0.0.5'' Map.empty)), OtherObject,
           Unstructured (Some (scenario_vs '''' ''10.0.0.6'' Map.empty))]"
  have c: "convert_object (scenario_source e objs) OtherObject = Inl (New ''could not convert'')"
    for e objs
    by (simp add: convert_object_def)
  have m: "OtherObject \<in> set ?objs" by simp
  from conversion_failure_aborts_the_call [OF scenario_informer m c,
      where c = spec_collaborators and lg = "[]"]
  obtain bad err' where b: "bad \<in> set ?objs"
    "convert_object (scenario_source '''' ?objs) bad = Inl err'"
    "Endpoints spec_collaborators (scenario_source '''' ?objs) [] = (Inl err', [])"
    by blast
  from b(1,2) have "err' = New ''could not convert''"
    by (auto simp add: scenario_convert_object c)
  with b(3) c show ?thesis by simp
qed

text \<open>
  Claim C8 as stated does not hold: construction with the malformed expression \<open>=prod\<close>
  (the parser rejects it) succeeds and returns an adapter that stores the expression.
\<close>

theorem malformed_filter_accepted_by_construction:
  "ParseFilter spec_collaborators ''=prod'' = Inl (New ''unable to parse requirement: =prod'')
   \<and> NewF5VirtualServerSource scenario_environment ''default'' ''=prod''
       = Inr (scenario_source ''=prod'' [])"
  by (simp add: scenario_construction scenario_malformed)

text \<open>
  Claim C8, amended. \<^verbatim>\<open>NewF5VirtualServerSource\<close> does not parse the annotation-filter
  expression: whether construction fails does not depend on the expression, a successful
  construction stores the expression as it was given, and construction succeeds whenever
  the cache synchronisation and the set-up of the converter succeed, whatever the
  expression is.
\<close>

theorem construction_ignores_the_filter:
  "isl (NewF5VirtualServerSource env ns expression) = isl (NewF5VirtualServerSource env ns expression')
   \<and> (NewF5VirtualServerSource env ns expression = Inr s \<longrightarrow> annotationFilter s = expression)
   \<and> (WaitForDynamicCacheSync env = None \<longrightarrow> AddToScheme env = None \<longrightarrow>
        \<not> isl (NewF5VirtualServerSource env ns expression))"
  by (auto simp add: NewF5VirtualServerSource_def newVSUnstructuredConverter_def
      split: option.splits)

theorem construction_ignores_the_filter_witness:
  "WaitForDynamicCacheSync scenario_environment = None
   \<and> AddToScheme scenario_environment = None
   \<and> NewF5VirtualServerSource scenario_environment ''default'' ''=prod''
       = Inr (scenario_source ''=prod'' [])
   \<and> annotationFilter (scenario_source ''=prod'' ([] :: VirtualServer option runtime_object list))
       = ''=prod''
   \<and> \<not> isl (NewF5VirtualServerSource scenario_environment ''default'' ''=prod'')"
proof -
  have w: "WaitForDynamicCacheSync scenario_environment = None"
    and a: "AddToScheme scenario_environment = None"
    by (simp_all add: scenario_environment_def)
  note n = scenario_construction [of "''=prod''"]
  from construction_ignores_the_filter [of scenario_environment "''default''" "''=prod''"
      "''''" "scenario_source ''=prod'' []"] w a n
  show ?thesis by simp
qed

text \<open>
  Claim C10 as stated does not hold for every call: with the malformed expression
  \<open>=prod\<close> and a cache that holds an object on which \<^verbatim>\<open>scheme.Convert\<close> fails,
  the call fails in the conversion loop, before the filter is parsed, and the error is
  the conversion error, not the wrapped filter error.
\<close>

theorem conversion_error_precedes_filter_error:
  "ParseFilter spec_collaborators
     (annotationFilter (scenario_source ''=prod'' [Unstructured None]))
     = Inl (New ''unable to parse requirement: =prod'')
   \<and> Endpoints spec_collaborators (scenario_source ''=prod'' [Unstructured None]) []
       = (Inl (New ''converting (unstructured) to (v1.VirtualServer)''), [])
   \<and> fst (Endpoints spec_collaborators (scenario_source ''=prod'' [Unstructured None]) [])
       \<noteq> Inl (Errorf ''failed to filter VirtualServers: ''
                (New ''unable to parse requirement: =prod''))"
proof -
  have "annotationFilter (scenario_source ''=prod'' [Unstructured None]) = ''=prod''"
    by (simp add: scenario_source_def)
  moreover have "Endpoints spec_collaborators (scenario_source ''=prod'' [Unstructured None]) []
       = (Inl (New ''converting (unstructured) to (v1.VirtualServer)''), [])"
    by (simp add: Endpoints_def scenario_informer convert_object_def)
      (simp add: scenario_source_def scenario_convert_def)
  ultimately show ?thesis by (simp add: scenario_malformed)
qed

text \<open>
  Claim C10, amended. The annotation-filter expression that the adapter keeps is parsed
  inside \<^verbatim>\<open>Endpoints\<close>: if the stored expression is malformed, every call of
  \<^verbatim>\<open>Endpoints\<close> fails and returns no endpoints. Whenever the cache is listed and all
  of its objects convert, the error is the filter error wrapped with the prefix
  \<open>failed to filter VirtualServers: \<close>; when listing the cache fails, the error is the
  list error; when an object fails conversion, the error is the conversion error of the
  first such object.
\<close>

theorem malformed_filter_fails_every_call:
  assumes "ParseFilter c (annotationFilter s) = Inl err"
  shows "(\<exists>err'. Endpoints c s lg = (Inl err', lg))
       \<and> (virtualServerInformer s (namespace s) = Inr objs \<longrightarrow>
          (\<forall>obj\<in>set objs. \<exists>v. convert_object s obj = Inr v) \<longrightarrow>
            Endpoints c s lg = (Inl (Errorf ''failed to filter VirtualServers: '' err), lg))
       \<and> (virtualServerInformer s (namespace s) = Inl listErr \<longrightarrow>
            Endpoints c s lg = (Inl listErr, lg))
       \<and> (virtualServerInformer s (namespace s) = Inr (pre @ bad # post) \<longrightarrow>
          (\<forall>obj\<in>set pre. \<exists>v. convert_object s obj = Inr v) \<longrightarrow>
          convert_object s bad = Inl convErr \<longrightarrow>
            Endpoints c s lg = (Inl convErr, lg))"
proof -
  have f: "filterByAnnotations c s vss = Inl err" for vss
    using assms by (simp add: filterByAnnotations_def)
  have "\<exists>err'. Endpoints c s lg = (Inl err', lg)"
    by (simp add: Endpoints_def f split: sum.splits)
  moreover have "Endpoints c s lg = (Inl (Errorf ''failed to filter VirtualServers: '' err), lg)"
    if "virtualServerInformer s (namespace s) = Inr objs"
      and "\<forall>obj\<in>set objs. \<exists>v. convert_object s obj = Inr v"
    using that(1) convert_loop_Inr [OF that(2), of "[]"] by (simp add: Endpoints_def f)
  moreover have "Endpoints c s lg = (Inl listErr, lg)"
    if "virtualServerInformer s (namespace s) = Inl listErr"
    using that by (simp add: Endpoints_def)
  moreover have "Endpoints c s lg = (Inl convErr, lg)"
    if "virtualServerInformer s (namespace s) = Inr (pre @ bad # post)"
      and "\<forall>obj\<in>set pre. \<exists>v. convert_object s obj = Inr v"
      and "convert_object s bad = Inl convErr"
    using that(1) convert_loop_first_failure [OF that(2,3), of post "[]"]
    by (simp add: Endpoints_def)
  ultimately show ?thesis by blast
qed

text \<open>
  The expression \<open>=prod\<close>, which construction accepts: with a cache of two objects that
  convert, \<^verbatim>\<open>Endpoints\<close> fails with the wrapped filter error; with an object that
  does not convert between them, with the conversion error; with a lister that fails,
  with the list error.
\<close>

theorem malformed_filter_fails_every_call_witness:
  "NewF5VirtualServerSource scenario_environment ''default'' ''=prod''
     = Inr (scenario_source ''=prod'' [])
   \<and> ParseFilter spec_collaborators ''=prod'' = Inl (New ''unable to parse requirement: =prod'')
   \<and> Endpoints spec_collaborators
        (scenario_source ''=prod''
           [Unstructured (Some (scenario_vs '''' ''10.0.0.5'' Map.empty)),
            Unstructured (Some (scenario_vs ''9.9.9.9'' ''10.0.0.6'' Map.empty))]) []
       = (Inl (Errorf ''failed to filter VirtualServers: ''
                 (New ''unable to parse requirement: =prod'')), [])
   \<and> Error (Errorf ''failed to filter VirtualServers: ''
               (New ''unable to parse requirement: =prod''))
       = ''failed to filter VirtualServers: unable to parse requirement: =prod''
   \<and> Endpoints spec_collaborators
        (scenario_source ''=prod''
           [Unstructured (Some (scenario_vs '''' ''10.0.0.5'' Map.empty)), Unstructured None,
            Unstructured (Some (scenario_vs ''9.9.9.9'' ''10.0.0.6'' Map.empty))]) []
       = (Inl (New ''converting (unstructured) to (v1.VirtualServer)''), [])
   \<and> Endpoints spec_collaborators
        ((scenario_source ''=prod'' [])\<lparr>virtualServerInformer := (\<lambda>ns. Inl (New ''list failed''))\<rparr>) []
       = (Inl (New ''list failed''), [])"
proof -
  let ?a = "Unstructured (Some (scenario_vs '''' ''10.0.0.5'' Map.empty))"
  let ?b = "Unstructured (Some (scenario_vs ''9.9.9.9'' ''10.0.0.6'' Map.empty))"
  let ?bad = "Unstructured None :: VirtualServer option runtime_object"
  let ?good = "scenario_source ''=prod'' [?a, ?b]"
  let ?mixed = "scenario_source ''=prod'' [?a, ?bad, ?b]"
  let ?nolist = "(scenario_source ''=prod'' ([] :: VirtualServer option runtime_object list))
                   \<lparr>virtualServerInformer := (\<lambda>ns. Inl (New ''list failed''))\<rparr>"
  have p: "ParseFilter spec_collaborators (annotationFilter (scenario_source ''=prod'' objs))
             = Inl (New ''unable to parse requirement: =prod'')" for objs
    by (simp add: scenario_source_def scenario_malformed)
  have p': "ParseFilter spec_collaborators (annotationFilter ?nolist)
             = Inl (New ''unable to parse requirement: =prod'')"
    by (simp add: scenario_source_def scenario_malformed)
  have lg: "virtualServerInformer ?good (namespace ?good) = Inr [?a, ?b]"
    by (rule scenario_informer)
  have ag: "\<forall>obj\<in>set [?a, ?b]. \<exists>v. convert_object ?good obj = Inr v"
    by (simp add: scenario_convert_object)
  have lm: "virtualServerInformer ?mixed (namespace ?mixed) = Inr ([?a] @ ?bad # [?b])"
    by (simp add: scenario_informer)
  have am: "\<forall>obj\<in>set [?a]. \<exists>v. convert_object ?mixed obj = Inr v"
    by (simp add: scenario_convert_object)
  have bm: "convert_object ?mixed ?bad = Inl (New ''converting (unstructured) to (v1.VirtualServer)'')"
    by (simp add: convert_object_def scenario_source_def scenario_convert_def)
  have ln: "virtualServerInformer ?nolist (namespace ?nolist) = Inl (New ''list failed'')"
    by simp
  from malformed_filter_fails_every_call [OF p, where lg = "[]" and objs = "[?a, ?b]"] lg ag
  have c3: "Endpoints spec_collaborators ?good []
       = (Inl (Errorf ''failed to filter VirtualServers: ''
                 (New ''unable to parse requirement: =prod'')), [])"
    by blast
  from malformed_filter_fails_every_call [OF p, where lg = "[]" and pre = "[?a]" and bad = ?bad
      and post = "[?b]"] lm am bm
  have c5: "Endpoints spec_collaborators ?mixed []
       = (Inl (New ''converting (unstructured) to (v1.VirtualServer)''), [])"
    by blast
  from malformed_filter_fails_every_call [OF p', where lg = "[]"] ln
  have c6: "Endpoints spec_collaborators ?nolist [] = (Inl (New ''list failed''), [])"
    by blast
  from c3 c5 c6 scenario_malformed scenario_construction [of "''=prod''"] show ?thesis by simp
qed

end
